theory Spec2Isabelle
  imports Complex_Main
begin

section \<open>Scope of the model\<close>

text \<open>
  A shallow embedding of the two TypeScript modules \<^verbatim>\<open>src/data/languages/index.ts\<close>
  (the dataset loader) and \<^verbatim>\<open>src/data/languages/schema.ts\<close> (the schema and the
  language detection utility).

  \<^item> A JavaScript string is a \<open>string\<close>: a list of code units below 256 (Latin-1), which
    covers every language code of the tables. \<open>length\<close> is the string's \<^verbatim>\<open>.length\<close>.
  \<^item> A JavaScript number is a \<open>real\<close>: finite, with no NaN and no infinity. The scores
    and their quotients are exact. The weighted comparison of \<^verbatim>\<open>detectEmailLanguage\<close>
    turns on the last bit of its operands, so there every arithmetic operation is
    followed by the rounding \<open>fl\<close> of a real to a double, a parameter; \<open>binary64\<close> is
    that rounding as IEEE 754 defines it.
  \<^item> The JSON files imported by the loader are not part of the sources; they are the
    parameter \<open>files\<close>, each of the shape \<^verbatim>\<open>RawLanguageData\<close> that the source's cast
    asserts.
  \<^item> The \<^verbatim>\<open>franc\<close> library is external; \<^verbatim>\<open>francAll(text, { minLength: 3 })\<close> is the
    parameter \<open>francAll\<close>, a function from the text to the ranked list of pairs.
  \<^item> The module-level \<^verbatim>\<open>datasetCache\<close> and the console are fields of an explicit state;
    objects built by \<^verbatim>\<open>processDataset\<close> live in a heap and are named by their address,
    so that "the same object" is equality of addresses.
  \<^item> A \<^verbatim>\<open>TypeError\<close> thrown by the code is the left injection of a sum type.
\<close>

section \<open>Strings\<close>

text \<open>
  \<^verbatim>\<open>String.prototype.trim\<close> removes the white space and line terminator code units
  from both ends; below 256 these are TAB, LF, VT, FF, CR, SP and NBSP.
\<close>

definition isWhiteSpace :: "char \<Rightarrow> bool" where
  "isWhiteSpace c =
     (c \<in> set [CHR 0x09, CHR 0x0A, CHR 0x0B, CHR 0x0C, CHR 0x0D, CHR 0x20, CHR 0xA0])"

definition trim :: "string \<Rightarrow> string" where
  "trim s = rev (dropWhile isWhiteSpace (rev (dropWhile isWhiteSpace s)))"

text \<open>
  \<^verbatim>\<open>String.prototype.toLowerCase\<close>: below 256 the upper-case letters are A to Z and
  U+00C0 to U+00DE without the multiplication sign U+00D7; each maps to the code unit
  32 above it.
\<close>

definition isUpperCase :: "char \<Rightarrow> bool" where
  "isUpperCase c =
     (let n = (of_char c :: nat) in
      (65 \<le> n \<and> n \<le> 90) \<or> (192 \<le> n \<and> n \<le> 222 \<and> n \<noteq> 215))"

definition toLowerChar :: "char \<Rightarrow> char" where
  "toLowerChar c = (if isUpperCase c then char_of ((of_char c :: nat) + 32) else c)"

definition toLowerCase :: "string \<Rightarrow> string" where
  "toLowerCase s = map toLowerChar s"

section \<open>Property access on an object literal\<close>

text \<open>
  Both tables of the program (\<^verbatim>\<open>languageDataMap\<close> and \<^verbatim>\<open>ISO_639_3_TO_639_1\<close>) are plain
  object literals read with \<^verbatim>\<open>table[key]\<close>. Such a read first looks among the object's own
  properties and then along the prototype chain, which for an object literal is
  \<^verbatim>\<open>Object.prototype\<close>. The value read is therefore one of: an own value, \<^verbatim>\<open>null\<close>,
  \<^verbatim>\<open>undefined\<close> (no such property anywhere), or a member inherited from
  \<^verbatim>\<open>Object.prototype\<close> (a built-in function, or for \<^verbatim>\<open>__proto__\<close> the prototype object
  itself).
\<close>

datatype 'a jsvalue = Undefined | Null | Val 'a | Inherited string

definition objectPrototypeKeys :: "string list" where
  "objectPrototypeKeys =
     [''constructor'', ''__defineGetter__'', ''__defineSetter__'', ''hasOwnProperty'',
      ''__lookupGetter__'', ''__lookupSetter__'', ''isPrototypeOf'',
      ''propertyIsEnumerable'', ''toString'', ''valueOf'', ''__proto__'',
      ''toLocaleString'']"

definition getProperty :: "(string \<times> 'a jsvalue) list \<Rightarrow> string \<Rightarrow> 'a jsvalue" where
  "getProperty obj key =
     (case map_of obj key of
        Some v \<Rightarrow> v
      | None \<Rightarrow> if key \<in> set objectPrototypeKeys then Inherited key else Undefined)"

section \<open>Schema\<close>

datatype category =
  finance | urgency | adult | health | scam | marketing | phishing | lottery | drugs | crypto

record SpamWord =
  word :: string
  score :: real
  category :: category
  caseSensitive :: "bool option"

record SpamSubjectPattern =
  pattern :: string
  score :: real
  name :: string

record TokenProbability =
  spam :: real
  ham :: real

record LanguageDataset =
  language :: string
  languageName :: string
  spamWords :: "SpamWord list"
  spamSingleWords :: "(string \<times> real) list"
  spamSubjectPatterns :: "SpamSubjectPattern list"
  hamWords :: "(string \<times> real) list"
  bayesianTokens :: "(string \<times> TokenProbability) list"
  urgencyWords :: "string list"
  greetingWords :: "string list"
  genericGreetings :: "string list"

definition SUPPORTED_LANGUAGES :: "string list" where
  "SUPPORTED_LANGUAGES = [''en'', ''es'', ''fr'', ''de'', ''pt'', ''it'', ''nl'', ''pl'', ''ru'']"

text \<open>
  \<^verbatim>\<open>SUPPORTED_LANGUAGES.includes(code)\<close>. The argument is typed as a string, but
  \<^verbatim>\<open>detectLanguage\<close> passes whatever the table read produced; a value that is not a string
  is equal to no element of the array.
\<close>

definition isSupportedLanguage :: "string jsvalue \<Rightarrow> bool" where
  "isSupportedLanguage v = (case v of Val c \<Rightarrow> c \<in> set SUPPORTED_LANGUAGES | _ \<Rightarrow> False)"

section \<open>Dataset loader\<close>

text \<open>
  \<^verbatim>\<open>RawLanguageData\<close> has the fields of \<^verbatim>\<open>LanguageDataset\<close>, with the patterns as
  plain \<^verbatim>\<open>{pattern, score, name}\<close> objects.
\<close>

record RawLanguageData =
  language :: string
  languageName :: string
  spamWords :: "SpamWord list"
  spamSingleWords :: "(string \<times> real) list"
  spamSubjectPatterns :: "SpamSubjectPattern list"
  hamWords :: "(string \<times> real) list"
  bayesianTokens :: "(string \<times> TokenProbability) list"
  urgencyWords :: "string list"
  greetingWords :: "string list"
  genericGreetings :: "string list"

text \<open>The nine static JSON imports.\<close>

record jsonFiles =
  enData :: RawLanguageData
  esData :: RawLanguageData
  frData :: RawLanguageData
  deData :: RawLanguageData
  ptData :: RawLanguageData
  itData :: RawLanguageData
  nlData :: RawLanguageData
  plData :: RawLanguageData
  ruData :: RawLanguageData

definition languageDataMap :: "jsonFiles \<Rightarrow> (string \<times> RawLanguageData jsvalue) list" where
  "languageDataMap files =
     [(''en'', Val (enData files)),
      (''es'', Val (esData files)),
      (''fr'', Val (frData files)),
      (''de'', Val (deData files)),
      (''pt'', Val (ptData files)),
      (''it'', Val (itData files)),
      (''nl'', Val (nlData files)),
      (''pl'', Val (plData files)),
      (''ru'', Val (ruData files))]"

datatype error = TypeError

text \<open>
  \<^verbatim>\<open>processDataset(raw)\<close> builds the object field by field. On a raw dataset every read
  succeeds. On a member inherited from \<^verbatim>\<open>Object.prototype\<close> the reads of
  \<^verbatim>\<open>raw.language\<close> to \<^verbatim>\<open>raw.spamSingleWords\<close> give \<^verbatim>\<open>undefined\<close>, and so does
  \<^verbatim>\<open>raw.spamSubjectPatterns\<close>, whose \<^verbatim>\<open>.map\<close> then throws a \<^verbatim>\<open>TypeError\<close>. On
  \<^verbatim>\<open>null\<close> and \<^verbatim>\<open>undefined\<close> the first read throws.
\<close>

fun processDataset :: "RawLanguageData jsvalue \<Rightarrow> error + LanguageDataset" where
  "processDataset (Val raw) =
     Inr \<lparr> LanguageDataset.language = RawLanguageData.language raw,
           languageName = RawLanguageData.languageName raw,
           spamWords = RawLanguageData.spamWords raw,
           spamSingleWords = RawLanguageData.spamSingleWords raw,
           spamSubjectPatterns =
             map (\<lambda>p. \<lparr> pattern = pattern p, score = SpamSubjectPattern.score p, name = name p \<rparr>)
               (RawLanguageData.spamSubjectPatterns raw),
           hamWords = RawLanguageData.hamWords raw,
           bayesianTokens = RawLanguageData.bayesianTokens raw,
           urgencyWords = RawLanguageData.urgencyWords raw,
           greetingWords = RawLanguageData.greetingWords raw,
           genericGreetings = RawLanguageData.genericGreetings raw \<rparr>"
| "processDataset (Inherited k) = Inl TypeError"
| "processDataset Null = Inl TypeError"
| "processDataset Undefined = Inl TypeError"

text \<open>Truthiness of a value read from \<^verbatim>\<open>languageDataMap\<close>: every object and function is truthy.\<close>

fun truthy :: "RawLanguageData jsvalue \<Rightarrow> bool" where
  "truthy (Val raw) = True"
| "truthy (Inherited k) = True"
| "truthy Null = False"
| "truthy Undefined = False"

text \<open>
  The state: the cache (a \<^verbatim>\<open>Map\<close> from the normalized code to the address of a dataset
  object), the heap of dataset objects built so far (the address is the index), and the
  codes for which a fall-back warning was printed.
\<close>

record state =
  datasetCache :: "string \<rightharpoonup> nat"
  heap :: "LanguageDataset list"
  console :: "string list"

definition initialState :: state where
  "initialState = \<lparr> datasetCache = Map.empty, heap = [], console = [] \<rparr>"

text \<open>\<^verbatim>\<open>datasetCache.set(key, dataset)\<close> for a dataset object just built.\<close>

definition cacheNew :: "string \<Rightarrow> LanguageDataset \<Rightarrow> state \<Rightarrow> state \<times> nat" where
  "cacheNew key dataset s =
     (s \<lparr> datasetCache := (datasetCache s)(key \<mapsto> length (heap s)),
          heap := heap s @ [dataset] \<rparr>,
      length (heap s))"

text \<open>
  \<^verbatim>\<open>getLanguageData(langCode)\<close> returns the new state and either the error thrown or the
  address of the dataset returned. In the fall-back branch the source's
  \<^verbatim>\<open>if (!datasetCache.has("en")) { ... set ... } return datasetCache.get("en")\<close> is the
  case distinction on the cache entry of \<open>''en''\<close>.
\<close>

definition getLanguageData :: "jsonFiles \<Rightarrow> state \<Rightarrow> string \<Rightarrow> state \<times> (error + nat)" where
  "getLanguageData files s langCode =
     (let normalizedCode = trim (toLowerCase langCode) in
      case datasetCache s normalizedCode of
        Some a \<Rightarrow> (s, Inr a)
      | None \<Rightarrow>
          (let rawData = getProperty (languageDataMap files) normalizedCode in
           if truthy rawData then
             (case processDataset rawData of
                Inl e \<Rightarrow> (s, Inl e)
              | Inr dataset \<Rightarrow>
                  (let (s', a) = cacheNew normalizedCode dataset s in (s', Inr a)))
           else
             (let s1 = (if normalizedCode \<noteq> ''en''
                        then s \<lparr> console := console s @ [normalizedCode] \<rparr> else s) in
              case datasetCache s1 ''en'' of
                Some a \<Rightarrow> (s1, Inr a)
              | None \<Rightarrow>
                  (case processDataset (Val (enData files)) of
                     Inl e \<Rightarrow> (s1, Inl e)
                   | Inr enDataset \<Rightarrow>
                       (let (s2, a) = cacheNew ''en'' enDataset s1 in (s2, Inr a))))))"

definition hasLanguageData :: "jsonFiles \<Rightarrow> string \<Rightarrow> bool" where
  "hasLanguageData files langCode =
     (let normalizedCode = trim (toLowerCase langCode) in
      getProperty (languageDataMap files) normalizedCode \<noteq> Null \<and>
      getProperty (languageDataMap files) normalizedCode \<noteq> Undefined)"

text \<open>\<^verbatim>\<open>Object.entries\<close> lists the own properties only, in insertion order.\<close>

definition getAvailableLanguages :: "jsonFiles \<Rightarrow> string list" where
  "getAvailableLanguages files =
     map fst (filter (\<lambda>(code, data). data \<noteq> Null) (languageDataMap files))"

definition getAllSupportedLanguages :: "string list" where
  "getAllSupportedLanguages = SUPPORTED_LANGUAGES"

text \<open>
  \<^verbatim>\<open>preloadAllLanguages()\<close>: the loop over \<^verbatim>\<open>Object.entries(languageDataMap)\<close>, as a
  recursion over the own entries.
\<close>

fun preloadEntries ::
  "(string \<times> RawLanguageData jsvalue) list \<Rightarrow> state \<Rightarrow> state \<times> (error + unit)" where
  "preloadEntries [] s = (s, Inr ())"
| "preloadEntries ((c, data) # entries) s =
     (if truthy data \<and> datasetCache s c = None then
        (case processDataset data of
           Inl e \<Rightarrow> (s, Inl e)
         | Inr dataset \<Rightarrow> preloadEntries entries (fst (cacheNew c dataset s)))
      else preloadEntries entries s)"

definition preloadAllLanguages :: "jsonFiles \<Rightarrow> state \<Rightarrow> state \<times> (error + unit)" where
  "preloadAllLanguages files s = preloadEntries (languageDataMap files) s"

definition clearCache :: "state \<Rightarrow> state" where
  "clearCache s = s \<lparr> datasetCache := Map.empty \<rparr>"

text \<open>
  The field projections read a field of the object that \<^verbatim>\<open>getLanguageData\<close> returned, and
  raise what it raised.
\<close>

definition getSpamWords :: "jsonFiles \<Rightarrow> state \<Rightarrow> string \<Rightarrow> state \<times> (error + SpamWord list)" where
  "getSpamWords files s langCode =
     (case getLanguageData files s langCode of
        (s', Inl e) \<Rightarrow> (s', Inl e)
      | (s', Inr a) \<Rightarrow> (s', Inr (LanguageDataset.spamWords (heap s' ! a))))"

definition getHamWords ::
  "jsonFiles \<Rightarrow> state \<Rightarrow> string \<Rightarrow> state \<times> (error + (string \<times> real) list)" where
  "getHamWords files s langCode =
     (case getLanguageData files s langCode of
        (s', Inl e) \<Rightarrow> (s', Inl e)
      | (s', Inr a) \<Rightarrow> (s', Inr (LanguageDataset.hamWords (heap s' ! a))))"

definition getBayesianTokens ::
  "jsonFiles \<Rightarrow> state \<Rightarrow> string \<Rightarrow> state \<times> (error + (string \<times> TokenProbability) list)" where
  "getBayesianTokens files s langCode =
     (case getLanguageData files s langCode of
        (s', Inl e) \<Rightarrow> (s', Inl e)
      | (s', Inr a) \<Rightarrow> (s', Inr (LanguageDataset.bayesianTokens (heap s' ! a))))"

definition getUrgencyWords :: "jsonFiles \<Rightarrow> state \<Rightarrow> string \<Rightarrow> state \<times> (error + string list)" where
  "getUrgencyWords files s langCode =
     (case getLanguageData files s langCode of
        (s', Inl e) \<Rightarrow> (s', Inl e)
      | (s', Inr a) \<Rightarrow> (s', Inr (LanguageDataset.urgencyWords (heap s' ! a))))"

section \<open>Rounding to doubles\<close>

text \<open>
  A double operation returns the exact result rounded to the nearest double, ties to
  the even significand. \<open>scale\<close> brings the magnitude into the range of a 53-bit
  significand, stopping at the least exponent of the subnormal numbers; the fuel
  suffices for every magnitude below \<open>2 ^ 2253\<close>. A result of magnitude \<open>2 ^ 1024\<close> or
  more, which a double operation turns into an infinity, is outside the model.
\<close>

definition roundHalfEven :: "real \<Rightarrow> int" where
  "roundHalfEven x =
     (let f = \<lfloor>x\<rfloor>; d = x - real_of_int f
      in if d < 1 / 2 then f else if 1 / 2 < d then f + 1 else if even f then f else f + 1)"

fun scale :: "nat \<Rightarrow> real \<Rightarrow> int \<Rightarrow> real \<times> int" where
  "scale 0 m e = (m, e)"
| "scale (Suc n) m e =
     (if m < 2 ^ 52 \<and> - 1074 < e then scale n (2 * m) (e - 1)
      else if 2 ^ 53 \<le> m then scale n (m / 2) (e + 1)
      else (m, e))"

definition binary64 :: "real \<Rightarrow> real" where
  "binary64 x =
     (let (m, e) = scale 2200 \<bar>x\<bar> 0;
          r = real_of_int (roundHalfEven m);
          v = (if 0 \<le> e then r * 2 ^ nat e else r / 2 ^ nat (- e))
      in if x < 0 then - v else v)"

section \<open>Language detection\<close>

record LanguageDetectionResult =
  code :: string
  confidence :: real
  isSupported :: bool
  rawCode :: string

definition ISO_639_3_TO_639_1 :: "(string \<times> string jsvalue) list" where
  "ISO_639_3_TO_639_1 =
     [(''eng'', Val ''en''), (''spa'', Val ''es''), (''fra'', Val ''fr''), (''deu'', Val ''de''),
      (''por'', Val ''pt''), (''ita'', Val ''it''), (''nld'', Val ''nl''), (''pol'', Val ''pl''),
      (''rus'', Val ''ru''),
      (''cmn'', Val ''zh''), (''arb'', Val ''ar''), (''jpn'', Val ''ja''), (''kor'', Val ''ko''),
      (''tur'', Val ''tr''), (''hin'', Val ''hi''), (''vie'', Val ''vi''), (''tha'', Val ''th''),
      (''ukr'', Val ''uk''), (''ces'', Val ''cs''), (''swe'', Val ''sv''), (''dan'', Val ''da''),
      (''nor'', Val ''no''), (''fin'', Val ''fi''), (''hun'', Val ''hu''), (''ron'', Val ''ro''),
      (''bul'', Val ''bg''), (''ell'', Val ''el''), (''heb'', Val ''he''), (''ind'', Val ''id'')]"

text \<open>
  The expression \<^verbatim>\<open>ISO_639_3_TO_639_1[code] || code.substring(0, 2)\<close>, bound to
  \<^verbatim>\<open>iso639_1\<close> in both detection functions. A non-empty own string and an inherited
  member are truthy; \<^verbatim>\<open>undefined\<close>, \<^verbatim>\<open>null\<close> and the empty string give the first two
  code units of the three-letter code.
\<close>

definition iso639_1 :: "string \<Rightarrow> string jsvalue" where
  "iso639_1 code3 =
     (case getProperty ISO_639_3_TO_639_1 code3 of
        Val c \<Rightarrow> if c \<noteq> [] then Val c else Val (take 2 code3)
      | Inherited k \<Rightarrow> Inherited k
      | Null \<Rightarrow> Val (take 2 code3)
      | Undefined \<Rightarrow> Val (take 2 code3))"

text \<open>
  The expression \<^verbatim>\<open>isSupported ? (iso639_1 as SupportedLanguage) : "en"\<close>. A value that
  is not a string is never supported.
\<close>

definition finalCode :: "string jsvalue \<Rightarrow> string" where
  "finalCode v = (case v of Val c \<Rightarrow> if isSupportedLanguage v then c else ''en'' | _ \<Rightarrow> ''en'')"

text \<open>
  \<^verbatim>\<open>results.reduce((sum, [, score]) => sum + score, 0)\<close> on a list of pairs.
\<close>

definition sumScores :: "(string \<times> real) list \<Rightarrow> real" where
  "sumScores results = foldl (\<lambda>sum (c, score). sum + score) 0 results"

text \<open>
  \<^verbatim>\<open>detectLanguage(text, minLength)\<close>; the caller passes 10 where the source relies on the
  default. \<^verbatim>\<open>!text\<close> holds of the empty string only.
\<close>

definition detectLanguage ::
  "(string \<Rightarrow> (string \<times> real) list) \<Rightarrow> string \<Rightarrow> real \<Rightarrow> LanguageDetectionResult" where
  "detectLanguage francAll text minLength =
     (if text = [] \<or> real (length (trim text)) < minLength then
        \<lparr> code = ''en'', confidence = 0, isSupported = True, rawCode = ''und'' \<rparr>
      else
        (let results = francAll text in
         case results of
           [] \<Rightarrow> \<lparr> code = ''en'', confidence = 0, isSupported = True, rawCode = ''und'' \<rparr>
         | (topCode, topScore) # rest \<Rightarrow>
             if topCode = ''und'' then
               \<lparr> code = ''en'', confidence = 0, isSupported = True, rawCode = ''und'' \<rparr>
             else
               (let totalScore = sumScores (take 5 results);
                    conf = (if totalScore > 0 then topScore / totalScore else 0)
                in \<lparr> code = finalCode (iso639_1 topCode),
                     confidence = min 1 (max 0 conf),
                     isSupported = isSupportedLanguage (iso639_1 topCode),
                     rawCode = topCode \<rparr>)))"

text \<open>
  \<^verbatim>\<open>detectEmailLanguage(subject, body, subjectWeight)\<close>. The subtraction and the two
  products are double operations: the exact result, rounded by \<open>fl\<close>. No operand
  exceeds the largest double in magnitude and the confidences lie between 0 and 1, so
  none of the three overflows.
\<close>

definition detectEmailLanguage ::
  "(real \<Rightarrow> real) \<Rightarrow> (string \<Rightarrow> (string \<times> real) list) \<Rightarrow> string \<Rightarrow> string \<Rightarrow> real \<Rightarrow>
     LanguageDetectionResult" where
  "detectEmailLanguage fl francAll subject body subjectWeight =
     (let bodyWeight = fl (1 - subjectWeight);
          combinedText = trim (subject @ '' '' @ body)
      in if length combinedText < 50 then detectLanguage francAll combinedText 10
         else
           (let subjectResult = detectLanguage francAll subject 5;
                bodyResult = detectLanguage francAll body 10
            in if confidence bodyResult > 0.7 then bodyResult
               else if code subjectResult = code bodyResult then
                 \<lparr> code = code bodyResult,
                   confidence = max (confidence subjectResult) (confidence bodyResult),
                   isSupported = isSupported bodyResult,
                   rawCode = rawCode bodyResult \<rparr>
               else
                 (let weightedSubjectConfidence = fl (confidence subjectResult * subjectWeight);
                      weightedBodyConfidence = fl (confidence bodyResult * bodyWeight)
                  in if weightedBodyConfidence \<ge> weightedSubjectConfidence then bodyResult
                     else subjectResult)))"

text \<open>
  \<^verbatim>\<open>results.slice(0, limit)\<close> for an integral \<open>limit\<close>: a negative end counts from the
  end of the array, and the result is empty when the end does not lie after the start.
\<close>

definition slice0 :: "'a list \<Rightarrow> int \<Rightarrow> 'a list" where
  "slice0 xs limit =
     (if limit < 0 then take (nat (int (length xs) + limit)) xs else take (nat limit) xs)"

definition detectLanguages ::
  "(string \<Rightarrow> (string \<times> real) list) \<Rightarrow> string \<Rightarrow> int \<Rightarrow> LanguageDetectionResult list" where
  "detectLanguages francAll text limit =
     (if text = [] \<or> length (trim text) < 10 then
        [\<lparr> code = ''en'', confidence = 0, isSupported = True, rawCode = ''und'' \<rparr>]
      else
        (let results = francAll text in
         if length results = 0 then
           [\<lparr> code = ''en'', confidence = 0, isSupported = True, rawCode = ''und'' \<rparr>]
         else
           (let totalScore = sumScores (slice0 results limit)
            in map (\<lambda>(c, score).
                     \<lparr> code = finalCode (iso639_1 c),
                       confidence = (if totalScore > 0 then score / totalScore else 0),
                       isSupported = isSupportedLanguage (iso639_1 c),
                       rawCode = c \<rparr>)
                 (slice0 results limit))))"

section \<open>Well-formed caches\<close>

text \<open>
  The processed dataset of a code that has an own entry in \<^verbatim>\<open>languageDataMap\<close>, and the
  invariant of the cache: every cached code has an own entry, and its address holds the
  processed dataset of that entry.
\<close>

definition registeredDataset :: "jsonFiles \<Rightarrow> string \<Rightarrow> LanguageDataset option" where
  "registeredDataset files k =
     (case map_of (languageDataMap files) k of
        Some v \<Rightarrow> (case processDataset v of Inr d \<Rightarrow> Some d | Inl e \<Rightarrow> None)
      | None \<Rightarrow> None)"

definition cacheOk :: "jsonFiles \<Rightarrow> state \<Rightarrow> bool" where
  "cacheOk files s =
     (\<forall>k a. datasetCache s k = Some a \<longrightarrow>
        a < length (heap s) \<and> registeredDataset files k = Some (heap s ! a))"

section \<open>Example inputs\<close>

text \<open>Concrete inputs at which the theorems below are instantiated.\<close>

definition exampleSubject :: string where
  "exampleSubject = ''Quarterly report''"

definition exampleBody :: string where
  "exampleBody = ''Please find the figures for the last quarter attached.''"

definition exampleText :: string where
  "exampleText = ''The quick brown fox jumps over the lazy dog''"

text \<open>A classifier under which subject and body agree, with relative scores 0.4 and 0.6.\<close>

definition exampleFranc :: "string \<Rightarrow> (string \<times> real) list" where
  "exampleFranc t =
     (if t = exampleSubject then [(''eng'', 4), (''spa'', 3), (''fra'', 3)]
      else [(''eng'', 6), (''spa'', 4)])"


text \<open>
  A classifier under which subject and body disagree, with relative scores 0.875 and
  0.375; every score, sum and quotient is a double.
\<close>

definition nearTieFranc :: "string \<Rightarrow> (string \<times> real) list" where
  "nearTieFranc t =
     (if t = exampleSubject then [(''spa'', 7), (''eng'', 1)]
      else [(''eng'', 3), (''deu'', 3), (''fra'', 2)])"

text \<open>A classifier that answers \<^verbatim>\<open>und\<close> on white space, as \<^verbatim>\<open>franc\<close> does.\<close>

definition blankFranc :: "string \<Rightarrow> (string \<times> real) list" where
  "blankFranc t = (if list_all isWhiteSpace t then [(''und'', 1)] else [(''eng'', 1)])"

definition windowFranc :: "string \<Rightarrow> (string \<times> real) list" where
  "windowFranc t = [(''eng'', 9), (''deu'', 3), (''nld'', 3), (''fra'', 2)]"

section \<open>The loader: normalized codes\<close>

text \<open>
  A normalized code has no upper-case letter, so of the names that the table inherits
  from \<^verbatim>\<open>Object.prototype\<close> only \<^verbatim>\<open>constructor\<close> and \<^verbatim>\<open>__proto__\<close> can be one.
\<close>

lemma toLowerChar_not_upper: "\<not> isUpperCase (toLowerChar c)"
proof (cases "isUpperCase c")
  case False
  then show ?thesis by (simp add: toLowerChar_def)
next
  case True
  then have "of_char c + (32::nat) < 256"
    by (auto simp: isUpperCase_def Let_def)
  then have "of_char (toLowerChar c) = of_char c + (32::nat)"
    using True by (simp add: toLowerChar_def)
  then show ?thesis
    using True unfolding isUpperCase_def Let_def by presburger
qed

lemma set_trim: "set (trim s) \<subseteq> set s"
proof -
  have sub: "set (dropWhile isWhiteSpace xs) \<subseteq> set xs" for xs
    by (auto dest: set_dropWhileD)
  have "set (dropWhile isWhiteSpace (rev (dropWhile isWhiteSpace s))) \<subseteq>
      set (rev (dropWhile isWhiteSpace s))"
    by (rule sub)
  also have "\<dots> \<subseteq> set s"
    using sub [of s] by simp
  finally show ?thesis by (simp add: trim_def)
qed

lemma normalized_no_upper:
  assumes "c \<in> set (trim (toLowerCase s))"
  shows "\<not> isUpperCase c"
proof -
  from assms set_trim have "c \<in> set (toLowerCase s)" by blast
  then show ?thesis by (auto simp: toLowerCase_def toLowerChar_not_upper)
qed

lemma upper_S: "isUpperCase CHR ''S''" by (simp add: isUpperCase_def)
lemma upper_O: "isUpperCase CHR ''O''" by (simp add: isUpperCase_def)
lemma upper_G: "isUpperCase CHR ''G''" by (simp add: isUpperCase_def)
lemma upper_P: "isUpperCase CHR ''P''" by (simp add: isUpperCase_def)
lemma upper_I: "isUpperCase CHR ''I''" by (simp add: isUpperCase_def)
lemma upper_L: "isUpperCase CHR ''L''" by (simp add: isUpperCase_def)

lemma inherited_normalized:
  assumes "k = trim (toLowerCase s)" and "k \<in> set objectPrototypeKeys"
  shows "k = ''constructor'' \<or> k = ''__proto__''"
proof -
  have no: "\<And>c. c \<in> set k \<Longrightarrow> \<not> isUpperCase c"
    using assms(1) normalized_no_upper by blast
  have "k \<noteq> ''__defineGetter__''" "k \<noteq> ''__lookupGetter__''"
    using no [of "CHR ''G''"] upper_G by auto
  moreover have "k \<noteq> ''__defineSetter__''" "k \<noteq> ''__lookupSetter__''" "k \<noteq> ''toString''"
    using no [of "CHR ''S''"] upper_S by auto
  moreover have "k \<noteq> ''hasOwnProperty''" "k \<noteq> ''valueOf''"
    using no [of "CHR ''O''"] upper_O by auto
  moreover have "k \<noteq> ''isPrototypeOf''"
    using no [of "CHR ''P''"] upper_P by auto
  moreover have "k \<noteq> ''propertyIsEnumerable''"
    using no [of "CHR ''I''"] upper_I by auto
  moreover have "k \<noteq> ''toLocaleString''"
    using no [of "CHR ''L''"] upper_L by auto
  ultimately show ?thesis
    using assms(2) by (simp add: objectPrototypeKeys_def)
qed


section \<open>The loader: what the table read yields\<close>

lemma getProperty_languageDataMap:
  "getProperty (languageDataMap files) k =
     (case map_of (languageDataMap files) k of
        Some v \<Rightarrow> v
      | None \<Rightarrow> if k \<in> set objectPrototypeKeys then Inherited k else Undefined)"
  by (simp add: getProperty_def)

lemma own_entry_is_dataset:
  assumes "map_of (languageDataMap files) k = Some v"
  shows "\<exists>raw. v = Val raw"
  using assms by (auto simp: languageDataMap_def split: if_splits)

lemma dom_languageDataMap:
  "(map_of (languageDataMap files) k \<noteq> None) =
     (k \<in> set [''en'', ''es'', ''fr'', ''de'', ''pt'', ''it'', ''nl'', ''pl'', ''ru''])"
  by (simp add: languageDataMap_def)

lemma hasLanguageData_iff:
  "hasLanguageData files langCode \<longleftrightarrow>
     trim (toLowerCase langCode) \<in>
       set [''en'', ''es'', ''fr'', ''de'', ''pt'', ''it'', ''nl'', ''pl'', ''ru''] \<or>
     trim (toLowerCase langCode) = ''constructor'' \<or>
     trim (toLowerCase langCode) = ''__proto__''"
proof (cases "map_of (languageDataMap files) (trim (toLowerCase langCode))")
  case (Some v)
  then have "hasLanguageData files langCode"
    using own_entry_is_dataset [OF Some]
    by (auto simp: hasLanguageData_def getProperty_languageDataMap)
  moreover have "trim (toLowerCase langCode) \<in>
      set [''en'', ''es'', ''fr'', ''de'', ''pt'', ''it'', ''nl'', ''pl'', ''ru'']"
    using Some dom_languageDataMap [of files "trim (toLowerCase langCode)"] by simp
  ultimately show ?thesis by blast
next
  case None
  then have unregistered: "trim (toLowerCase langCode) \<notin>
      set [''en'', ''es'', ''fr'', ''de'', ''pt'', ''it'', ''nl'', ''pl'', ''ru'']"
    using dom_languageDataMap [of files "trim (toLowerCase langCode)"] by simp
  have "hasLanguageData files langCode \<longleftrightarrow>
      trim (toLowerCase langCode) \<in> set objectPrototypeKeys"
    using None by (simp add: hasLanguageData_def getProperty_languageDataMap)
  also have "\<dots> \<longleftrightarrow> trim (toLowerCase langCode) = ''constructor'' \<or>
      trim (toLowerCase langCode) = ''__proto__''"
    using inherited_normalized [OF refl, of langCode]
    by (auto simp: objectPrototypeKeys_def)
  finally show ?thesis
    using unregistered by blast
qed

section \<open>The loader on every other code\<close>

lemma cacheOk_initialState: "cacheOk files initialState"
  by (simp add: cacheOk_def initialState_def)

lemma cacheOk_clearCache: "cacheOk files (clearCache s)"
  by (simp add: cacheOk_def clearCache_def)

lemma cacheOk_console: "cacheOk files (s \<lparr> console := c \<rparr>) = cacheOk files s"
  by (simp add: cacheOk_def)

lemma cacheOk_cacheNew:
  assumes "cacheOk files s" and "registeredDataset files k = Some d"
  shows "cacheOk files (fst (cacheNew k d s))"
  using assms by (auto simp: cacheOk_def cacheNew_def nth_append less_Suc_eq)

lemma registeredDataset_en:
  "\<exists>d. processDataset (Val (enData files)) = Inr d \<and> registeredDataset files ''en'' = Some d"
  by (simp add: registeredDataset_def languageDataMap_def)

text \<open>The result of a call whose normalized code is not an inherited name.\<close>

lemma getLanguageData_returns:
  assumes ok: "cacheOk files s"
    and k: "k = trim (toLowerCase langCode)"
    and own: "k \<noteq> ''constructor''" "k \<noteq> ''__proto__''"
  shows "\<exists>s' a. getLanguageData files s langCode = (s', Inr a) \<and> cacheOk files s' \<and>
           a < length (heap s') \<and>
           Inr (heap s' ! a) =
             (case map_of (languageDataMap files) k of
                Some v \<Rightarrow> processDataset v
              | None \<Rightarrow> processDataset (Val (enData files))) \<and>
           console s' =
             (if map_of (languageDataMap files) k = None then console s @ [k] else console s)"
proof (cases "datasetCache s k")
  case (Some a)
  then have "a < length (heap s)" "registeredDataset files k = Some (heap s ! a)"
    using ok by (auto simp: cacheOk_def)
  moreover from this obtain v where "map_of (languageDataMap files) k = Some v"
      and "processDataset v = Inr (heap s ! a)"
    by (auto simp: registeredDataset_def split: option.splits sum.splits)
  ultimately show ?thesis
    using Some ok k by (simp add: getLanguageData_def)
next
  case miss: None
  show ?thesis
  proof (cases "map_of (languageDataMap files) k")
    case (Some v)
    then obtain raw where v: "v = Val raw"
      using own_entry_is_dataset by blast
    obtain d where d: "processDataset (Val raw) = Inr d"
      by simp
    have reg: "registeredDataset files k = Some d"
      using Some v d by (simp add: registeredDataset_def)
    have "cacheOk files (fst (cacheNew k d s))"
      using ok reg by (rule cacheOk_cacheNew)
    then show ?thesis
      using miss Some v d reg k
      by (simp add: getLanguageData_def getProperty_languageDataMap Let_def
          cacheNew_def split_beta del: processDataset.simps)
  next
    case None
    have notin: "k \<notin> set objectPrototypeKeys"
      using inherited_normalized [OF k] own by blast
    have undef: "getProperty (languageDataMap files) k = Undefined"
      using None notin by (simp add: getProperty_languageDataMap)
    have k_en: "k \<noteq> ''en''"
      using None by (auto simp: languageDataMap_def)
    have noreg: "registeredDataset files k = None"
      using None by (simp add: registeredDataset_def)
    obtain d where d: "processDataset (Val (enData files)) = Inr d"
      and reg_en: "registeredDataset files ''en'' = Some d"
      using registeredDataset_en by blast
    define s1 where "s1 = s \<lparr> console := console s @ [k] \<rparr>"
    have ok1: "cacheOk files s1"
      using ok by (simp add: s1_def cacheOk_console)
    show ?thesis
    proof (cases "datasetCache s ''en''")
      case (Some a)
      then have "a < length (heap s)" "heap s ! a = d"
        using ok reg_en by (auto simp: cacheOk_def)
      then show ?thesis
        using miss undef k_en noreg reg_en Some None ok1 k d
        by (simp add: getLanguageData_def Let_def s1_def del: processDataset.simps)
    next
      case en_miss: None
      have "cacheOk files (fst (cacheNew ''en'' d s1))"
        using ok1 reg_en by (rule cacheOk_cacheNew)
      then show ?thesis
        using miss undef k_en noreg reg_en en_miss None d k
        by (simp add: getLanguageData_def Let_def s1_def cacheNew_def split_beta
            del: processDataset.simps)
    qed
  qed
qed


lemma getProperty_en: "getProperty (languageDataMap files) ''en'' = Val (enData files)"
  by (simp add: getProperty_def languageDataMap_def)

text \<open>
  Whenever a call returns an object, a later call on an input with the same normalized
  code returns the same object.
\<close>

lemma getLanguageData_same_object:
  assumes first: "getLanguageData files s a = (s', Inr x)"
    and same: "trim (toLowerCase a) = trim (toLowerCase b)"
  shows "snd (getLanguageData files s' b) = Inr x"
proof -
  define k where "k = trim (toLowerCase b)"
  have ka: "trim (toLowerCase a) = k"
    using same by (simp add: k_def)
  show ?thesis
  proof (cases "datasetCache s k")
    case (Some y)
    then show ?thesis
      using first ka k_def by (simp add: getLanguageData_def)
  next
    case miss: None
    show ?thesis
    proof (cases "truthy (getProperty (languageDataMap files) k)")
      case True
      then have "datasetCache s' k = Some x"
        using first ka miss
        by (auto simp: getLanguageData_def Let_def cacheNew_def split: sum.splits)
      then show ?thesis
        using k_def by (simp add: getLanguageData_def)
    next
      case False
      then have k_en: "k \<noteq> ''en''"
        using getProperty_en [of files] by auto
      have cached: "datasetCache s' ''en'' = Some x \<and> datasetCache s' k = None"
        using first ka miss False k_en
        by (auto simp: getLanguageData_def Let_def cacheNew_def
            split: sum.splits option.splits)
      then show ?thesis
        using False k_en k_def by (simp add: getLanguageData_def Let_def)
    qed
  qed
qed

text \<open>\<^verbatim>\<open>preloadAllLanguages\<close> never raises and keeps the cache well formed.\<close>

lemma preloadEntries_ok:
  assumes "cacheOk files s"
    and "\<forall>(c, v) \<in> set entries. map_of (languageDataMap files) c = Some v"
  shows "snd (preloadEntries entries s) = Inr () \<and> cacheOk files (fst (preloadEntries entries s))"
  using assms
proof (induction entries arbitrary: s)
  case Nil
  then show ?case by simp
next
  case (Cons e entries)
  obtain c v where e: "e = (c, v)"
    by (cases e)
  have own: "map_of (languageDataMap files) c = Some v"
    using Cons.prems(2) e by simp
  then obtain raw where v: "v = Val raw"
    using own_entry_is_dataset by blast
  obtain d where d: "processDataset (Val raw) = Inr d"
    by simp
  have reg: "registeredDataset files c = Some d"
    using own v d by (simp add: registeredDataset_def)
  have rest: "\<forall>(c, v) \<in> set entries. map_of (languageDataMap files) c = Some v"
    using Cons.prems(2) by simp
  show ?case
  proof (cases "datasetCache s c")
    case None
    have "cacheOk files (fst (cacheNew c d s))"
      using Cons.prems(1) reg by (rule cacheOk_cacheNew)
    from Cons.IH [OF this rest] show ?thesis
      using None e v d by (simp del: processDataset.simps)
  next
    case (Some a)
    from Cons.IH [OF Cons.prems(1) rest] show ?thesis
      using Some e by simp
  qed
qed

lemma preloadAllLanguages_ok:
  assumes "cacheOk files s"
  shows "snd (preloadAllLanguages files s) = Inr () \<and>
         cacheOk files (fst (preloadAllLanguages files s))"
  unfolding preloadAllLanguages_def
  by (rule preloadEntries_ok [OF assms]) (simp add: languageDataMap_def)

section \<open>The loader on inherited property names\<close>

text \<open>
  \<^verbatim>\<open>languageDataMap[normalizedCode]\<close> also finds the members that the table inherits from
  \<^verbatim>\<open>Object.prototype\<close>. Lower-casing leaves two of their names unchanged:
  \<^verbatim>\<open>constructor\<close> and \<^verbatim>\<open>__proto__\<close>.
\<close>

lemma normalize_constructor: "trim (toLowerCase ''constructor'') = ''constructor''"
  by code_simp

lemma normalize_Constructor: "trim (toLowerCase '' Constructor '') = ''constructor''"
  by code_simp

lemma normalize_CONSTRUCTOR: "trim (toLowerCase '' CONSTRUCTOR'') = ''constructor''"
  by code_simp

lemma normalize_proto: "trim (toLowerCase ''__proto__'') = ''__proto__''"
  by code_simp

lemma getProperty_constructor:
  "getProperty (languageDataMap files) ''constructor'' = Inherited ''constructor''"
  by (simp add: getProperty_def languageDataMap_def objectPrototypeKeys_def)

lemma getProperty_proto:
  "getProperty (languageDataMap files) ''__proto__'' = Inherited ''__proto__''"
  by (simp add: getProperty_def languageDataMap_def objectPrototypeKeys_def)

lemma getLanguageData_inherited:
  assumes "trim (toLowerCase langCode) = k"
    and "k = ''constructor'' \<or> k = ''__proto__''"
    and "datasetCache s k = None"
  shows "getLanguageData files s langCode = (s, Inl TypeError)"
  using assms
  by (auto simp: getLanguageData_def getProperty_constructor getProperty_proto)

lemma cacheOk_unregistered:
  assumes "cacheOk files s" and "map_of (languageDataMap files) k = None"
  shows "datasetCache s k = None"
proof (cases "datasetCache s k")
  case None
  then show ?thesis .
next
  case (Some a)
  then have "registeredDataset files k = Some (heap s ! a)"
    using assms(1) by (simp add: cacheOk_def)
  then show ?thesis
    using assms(2) by (simp add: registeredDataset_def)
qed

text \<open>
  On a well-formed cache a call raises exactly when the normalized code is one of the
  two inherited names, and the cache stays well formed either way.
\<close>

lemma getLanguageData_raises_iff:
  assumes "cacheOk files s"
  shows "snd (getLanguageData files s langCode) = Inl TypeError \<longleftrightarrow>
           trim (toLowerCase langCode) = ''constructor'' \<or>
           trim (toLowerCase langCode) = ''__proto__''"
proof (cases "trim (toLowerCase langCode) = ''constructor'' \<or>
    trim (toLowerCase langCode) = ''__proto__''")
  case True
  then have "map_of (languageDataMap files) (trim (toLowerCase langCode)) = None"
    by (auto simp: languageDataMap_def)
  then have "datasetCache s (trim (toLowerCase langCode)) = None"
    using assms cacheOk_unregistered by blast
  then have "getLanguageData files s langCode = (s, Inl TypeError)"
    using True getLanguageData_inherited [OF refl] by blast
  then show ?thesis
    using True by simp
next
  case False
  then obtain s' a where "getLanguageData files s langCode = (s', Inr a)"
    using getLanguageData_returns [OF assms refl, of langCode] by blast
  then show ?thesis
    using False by simp
qed

lemma getLanguageData_cacheOk:
  assumes "cacheOk files s"
  shows "cacheOk files (fst (getLanguageData files s langCode))"
proof (cases "snd (getLanguageData files s langCode) = Inl TypeError")
  case True
  then have "trim (toLowerCase langCode) = ''constructor'' \<or>
      trim (toLowerCase langCode) = ''__proto__''"
    using getLanguageData_raises_iff [OF assms] by blast
  moreover from this have "map_of (languageDataMap files) (trim (toLowerCase langCode)) = None"
    by (auto simp: languageDataMap_def)
  then have "datasetCache s (trim (toLowerCase langCode)) = None"
    using assms cacheOk_unregistered by blast
  ultimately have "getLanguageData files s langCode = (s, Inl TypeError)"
    using getLanguageData_inherited [OF refl] by blast
  then show ?thesis
    using assms by simp
next
  case False
  then have "\<not> (trim (toLowerCase langCode) = ''constructor'' \<or>
      trim (toLowerCase langCode) = ''__proto__'')"
    using getLanguageData_raises_iff [OF assms] by blast
  then obtain s' a where "getLanguageData files s langCode = (s', Inr a)" "cacheOk files s'"
    using getLanguageData_returns [OF assms refl, of langCode] by blast
  then show ?thesis by simp
qed

text \<open>
  C1 (fails on the code). The claim says that \<^verbatim>\<open>getLanguageData\<close> and the field
  projections never raise, whatever the string. On the input \<^verbatim>\<open>"constructor"\<close>, with
  an empty cache, the table read yields the inherited \<^verbatim>\<open>Object\<close> function, which is
  truthy, so the fall-back branch is skipped and \<^verbatim>\<open>processDataset\<close> throws a
  \<^verbatim>\<open>TypeError\<close>; \<^verbatim>\<open>getSpamWords\<close> raises with it.
\<close>

theorem getLanguageData_constructor_raises:
  "getLanguageData files initialState ''constructor'' = (initialState, Inl TypeError) \<and>
   getSpamWords files initialState ''constructor'' = (initialState, Inl TypeError)"
  by (simp add: getSpamWords_def getLanguageData_def normalize_constructor initialState_def
      getProperty_constructor)

text \<open>
  C2 (fails on the code). The claim says that two inputs with the same normalized form
  return the same cached object. \<^verbatim>\<open>" Constructor "\<close> and \<^verbatim>\<open>"constructor"\<close> normalize
  to the same key, and both calls, one after the other, raise instead of returning an
  object; nothing is cached in between.
\<close>

theorem getLanguageData_same_key_both_raise:
  "trim (toLowerCase '' Constructor '') = trim (toLowerCase ''constructor'') \<and>
   getLanguageData files initialState '' Constructor '' = (initialState, Inl TypeError) \<and>
   getLanguageData files (fst (getLanguageData files initialState '' Constructor ''))
     ''constructor'' = (initialState, Inl TypeError)"
proof -
  have first: "getLanguageData files initialState '' Constructor '' =
      (initialState, Inl TypeError)"
    by (rule getLanguageData_inherited [OF normalize_Constructor])
      (simp_all add: initialState_def)
  have second: "getLanguageData files initialState ''constructor'' =
      (initialState, Inl TypeError)"
    by (rule getLanguageData_inherited [OF normalize_constructor])
      (simp_all add: initialState_def)
  show ?thesis
    by (simp add: first second normalize_constructor normalize_Constructor)
qed

text \<open>
  C3 (fails on the code). The claim says that every input whose normalized form has no
  registered raw dataset yields the English dataset. \<^verbatim>\<open>" CONSTRUCTOR"\<close> normalizes
  to \<^verbatim>\<open>constructor\<close>, which has no entry in the table, yet the call raises: no dataset
  is returned, nothing is cached and no warning is printed.
\<close>

theorem getLanguageData_unregistered_no_fallback:
  "map_of (languageDataMap files) (trim (toLowerCase '' CONSTRUCTOR'')) = None \<and>
   snd (getLanguageData files initialState '' CONSTRUCTOR'') = Inl TypeError \<and>
   console (fst (getLanguageData files initialState '' CONSTRUCTOR'')) = []"
proof -
  have unregistered: "map_of (languageDataMap files) ''constructor'' = None"
    by (simp add: languageDataMap_def)
  have raised: "getLanguageData files initialState '' CONSTRUCTOR'' =
      (initialState, Inl TypeError)"
    by (rule getLanguageData_inherited [OF normalize_CONSTRUCTOR])
      (simp_all add: initialState_def)
  show ?thesis
    by (simp add: unregistered raised normalize_CONSTRUCTOR) (simp add: initialState_def)
qed

text \<open>
  C4 (fails on the code). The claim says that \<^verbatim>\<open>hasLanguageData\<close> is true exactly for the
  nine registered codes. It is also true for \<^verbatim>\<open>"constructor"\<close> and \<^verbatim>\<open>"__proto__"\<close>,
  which are not in the table and not among the codes that \<^verbatim>\<open>getAvailableLanguages\<close>
  lists: an inherited member is neither \<^verbatim>\<open>null\<close> nor \<^verbatim>\<open>undefined\<close>.
\<close>

theorem hasLanguageData_inherited:
  "hasLanguageData files ''constructor'' \<and>
   hasLanguageData files ''__proto__'' \<and>
   map_of (languageDataMap files) (trim (toLowerCase ''constructor'')) = None \<and>
   map_of (languageDataMap files) (trim (toLowerCase ''__proto__'')) = None \<and>
   getAvailableLanguages files =
     [''en'', ''es'', ''fr'', ''de'', ''pt'', ''it'', ''nl'', ''pl'', ''ru'']"
  by (simp add: hasLanguageData_def normalize_constructor normalize_proto
      getProperty_constructor getProperty_proto)
    (simp add: languageDataMap_def getAvailableLanguages_def)

section \<open>Language detection: auxiliary facts\<close>

lemma foldl_scores: "foldl (\<lambda>sum (c, score). sum + score) a xs = a + sum_list (map snd xs)"
  for a :: real and xs :: "(string \<times> real) list"
  by (induction xs arbitrary: a) (auto simp: case_prod_beta)

lemma sumScores_sum_list: "sumScores xs = sum_list (map snd xs)"
  by (simp add: sumScores_def foldl_scores)

lemma detectLanguage_bounds:
  "0 \<le> confidence (detectLanguage francAll text minLength) \<and>
   confidence (detectLanguage francAll text minLength) \<le> 1"
  by (simp add: detectLanguage_def Let_def split: list.split prod.split)

lemma slice0_nonneg: "0 \<le> limit \<Longrightarrow> slice0 xs limit = take (nat limit) xs"
  by (simp add: slice0_def)

lemma trim_whitespace_only:
  assumes "list_all isWhiteSpace s"
  shows "trim s = []"
proof -
  have none_left: "dropWhile isWhiteSpace s = []"
    using assms by (induction s) simp_all
  show ?thesis
    unfolding trim_def none_left by simp
qed

lemma iso639_1_und: "iso639_1 ''und'' = Val ''un''"
  by (simp add: iso639_1_def getProperty_def ISO_639_3_TO_639_1_def objectPrototypeKeys_def)

text \<open>The example inputs, evaluated.\<close>

lemmas detect_simps =
  detectLanguage_def trim_def isWhiteSpace_def sumScores_def iso639_1_def getProperty_def
  ISO_639_3_TO_639_1_def finalCode_def isSupportedLanguage_def SUPPORTED_LANGUAGES_def
  objectPrototypeKeys_def

lemma exampleSubject_result:
  "detectLanguage exampleFranc exampleSubject 5 =
     \<lparr> code = ''en'', confidence = 2 / 5, isSupported = True, rawCode = ''eng'' \<rparr>"
  by (simp add: detect_simps exampleFranc_def exampleSubject_def)

lemma exampleBody_result:
  "detectLanguage exampleFranc exampleBody 10 =
     \<lparr> code = ''en'', confidence = 3 / 5, isSupported = True, rawCode = ''eng'' \<rparr>"
  by (simp add: detect_simps exampleFranc_def exampleSubject_def exampleBody_def)



lemma example_length: "length (trim (exampleSubject @ '' '' @ exampleBody)) = 71"
  by (simp add: trim_def isWhiteSpace_def exampleSubject_def exampleBody_def)

lemma exampleText_nonempty: "exampleText \<noteq> []"
  by (simp add: exampleText_def)

lemma exampleText_long: "10 \<le> length (trim exampleText)"
  by (simp add: exampleText_def trim_def isWhiteSpace_def)

section \<open>Language detection: the confidence of a single detection\<close>

text \<open>
  C5. When the text passes the length guard and the classifier returns a non-empty list
  whose top code is not \<^verbatim>\<open>und\<close>, the confidence of \<^verbatim>\<open>detectLanguage\<close> is the top score
  divided by the sum of the scores of the first five candidates (of all of them when
  there are fewer), taken as 0 when that sum is not positive, and clamped into the unit
  interval; in particular it is 0 when the sum is 0. For every text, every classifier
  and every \<open>minLength\<close> the confidence lies between 0 and 1.
\<close>

theorem detectLanguage_confidence:
  "0 \<le> confidence (detectLanguage francAll text minLength) \<and>
   confidence (detectLanguage francAll text minLength) \<le> 1 \<and>
   (text \<noteq> [] \<and> minLength \<le> real (length (trim text)) \<and>
    francAll text = (topCode, topScore) # rest \<and> topCode \<noteq> ''und'' \<longrightarrow>
      (let total = sum_list (map snd (take 5 (francAll text))) in
       confidence (detectLanguage francAll text minLength) =
         min 1 (max 0 (if 0 < total then topScore / total else 0)) \<and>
       (total = 0 \<longrightarrow> confidence (detectLanguage francAll text minLength) = 0)))"
proof -
  have ratio: "confidence (detectLanguage francAll text minLength) =
      min 1 (max 0 (if 0 < sum_list (map snd (take 5 (francAll text)))
                    then topScore / sum_list (map snd (take 5 (francAll text))) else 0))"
    if "text \<noteq> []" "minLength \<le> real (length (trim text))"
      "francAll text = (topCode, topScore) # rest" "topCode \<noteq> ''und''"
    using that by (simp add: detectLanguage_def Let_def sumScores_sum_list)
  show ?thesis
    using detectLanguage_bounds [of francAll "text" minLength] ratio
    by (simp add: Let_def)
qed

theorem detectLanguage_confidence_witness:
  "confidence (detectLanguage (\<lambda>t. [(''eng'', 3), (''spa'', 1), (''fra'', 1)])
      ''good morning everyone'' 10) = 3 / 5"
  using detectLanguage_confidence [of "\<lambda>t. [(''eng'', 3), (''spa'', 1), (''fra'', 1)]"
      "''good morning everyone''" 10 "''eng''" 3 "[(''spa'', 1), (''fra'', 1)]"]
  by (simp add: trim_def isWhiteSpace_def)

section \<open>Rounding: evaluation\<close>








lemma nearTieSubject_result:
  "detectLanguage nearTieFranc exampleSubject 5 =
     \<lparr> code = ''es'', confidence = 7 / 8, isSupported = True, rawCode = ''spa'' \<rparr>"
  by (simp add: detect_simps nearTieFranc_def exampleSubject_def)

lemma nearTieBody_result:
  "detectLanguage nearTieFranc exampleBody 10 =
     \<lparr> code = ''en'', confidence = 3 / 8, isSupported = True, rawCode = ''eng'' \<rparr>"
  by (simp add: detect_simps nearTieFranc_def exampleSubject_def exampleBody_def)

section \<open>Language detection: subject and body\<close>

text \<open>
  C6. When the trimmed concatenation of subject, a space and body has at least 50 code
  units, the body's detection has confidence at most 0.7, and the detections of subject
  (minimum length 5) and body (minimum length 10) have the same code, then
  \<^verbatim>\<open>detectEmailLanguage\<close> returns the body's code, rawCode and isSupported, with the
  larger of the two confidences, whatever the weight and the rounding. With confidences
  0.4 and 0.6 the result has 0.6.
\<close>

theorem detectEmailLanguage_agreement:
  assumes "50 \<le> length (trim (subject @ '' '' @ body))"
    and "confidence (detectLanguage francAll body 10) \<le> 0.7"
    and "code (detectLanguage francAll subject 5) = code (detectLanguage francAll body 10)"
  shows "detectEmailLanguage fl francAll subject body subjectWeight =
      \<lparr> code = code (detectLanguage francAll body 10),
        confidence = max (confidence (detectLanguage francAll subject 5))
                         (confidence (detectLanguage francAll body 10)),
        isSupported = isSupported (detectLanguage francAll body 10),
        rawCode = rawCode (detectLanguage francAll body 10) \<rparr>"
  using assms by (simp add: detectEmailLanguage_def Let_def)

theorem detectEmailLanguage_agreement_witness:
  "detectEmailLanguage binary64 exampleFranc exampleSubject exampleBody 0.3 =
     \<lparr> code = ''en'', confidence = 3 / 5, isSupported = True, rawCode = ''eng'' \<rparr>"
proof -
  have long: "50 \<le> length (trim (exampleSubject @ '' '' @ exampleBody))"
    using example_length by simp
  have unsure: "confidence (detectLanguage exampleFranc exampleBody 10) \<le> 0.7"
    by (simp add: exampleBody_result)
  have agree: "code (detectLanguage exampleFranc exampleSubject 5) =
      code (detectLanguage exampleFranc exampleBody 10)"
    by (simp add: exampleSubject_result exampleBody_result)
  show ?thesis
    using detectEmailLanguage_agreement [OF long unsure agree, of binary64 "0.3"]
    by (simp add: exampleSubject_result exampleBody_result)
qed



text \<open>
  In exact arithmetic the second instance is a tie, \<open>7 / 8 * 3 / 10 = 3 / 8 * 7 / 10\<close>,
  and would go to the body: the rounding decides it.
\<close>

lemma detectEmailLanguage_exact_tie:
  "detectEmailLanguage (\<lambda>x. x) nearTieFranc exampleSubject exampleBody (3 / 10) =
     \<lparr> code = ''en'', confidence = 3 / 8, isSupported = True, rawCode = ''eng'' \<rparr>"
  using example_length
  by (simp add: detectEmailLanguage_def Let_def nearTieSubject_result nearTieBody_result)

section \<open>Language detection: the ranked list\<close>

text \<open>
  C8. For a text of at least 10 code units after trimming, a non-empty classifier result
  and a limit that is not negative, \<^verbatim>\<open>detectLanguages\<close> returns one entry for each of
  the first \<open>limit\<close> candidates (for all of them when there are fewer), in the
  classifier's order, with the candidate's code as rawCode. The confidence of an entry
  is its score divided by the sum of the scores of exactly those candidates whenever
  that sum is positive; the code yields 0 when it is not. With limit 3 and scores 9, 3,
  3 (and a fourth candidate outside the window) the confidences are 0.6, 0.2, 0.2, which
  add up to 1.
\<close>

theorem detectLanguages_window:
  assumes "text \<noteq> []" and "10 \<le> length (trim text)" and "francAll text \<noteq> []"
    and "0 \<le> limit"
  shows "(let window = take (nat limit) (francAll text);
              total = sum_list (map snd window)
          in detectLanguages francAll text limit =
               map (\<lambda>(c, score).
                     \<lparr> code = finalCode (iso639_1 c),
                       confidence = (if 0 < total then score / total else 0),
                       isSupported = isSupportedLanguage (iso639_1 c),
                       rawCode = c \<rparr>) window \<and>
             map rawCode (detectLanguages francAll text limit) = map fst window \<and>
             (0 < total \<longrightarrow>
                map confidence (detectLanguages francAll text limit) =
                  map (\<lambda>(c, score). score / total) window))"
  using assms
  by (simp add: detectLanguages_def Let_def slice0_nonneg sumScores_sum_list
      case_prod_beta comp_def)

theorem detectLanguages_window_witness:
  "map confidence (detectLanguages windowFranc exampleText 3) = [0.6, 0.2, 0.2] \<and>
   map rawCode (detectLanguages windowFranc exampleText 3) = [''eng'', ''deu'', ''nld''] \<and>
   sum_list (map confidence (detectLanguages windowFranc exampleText 3)) = 1"
proof -
  have some: "windowFranc exampleText \<noteq> []"
    by (simp add: windowFranc_def)
  show ?thesis
    using detectLanguages_window [of exampleText windowFranc 3]
      exampleText_nonempty exampleText_long some
    by (simp add: windowFranc_def Let_def)
qed

section \<open>Language detection: short texts\<close>

text \<open>
  C9. For every text that is empty, consists of white space only, or has fewer than
  \<open>minLength\<close> code units after trimming, \<^verbatim>\<open>detectLanguage\<close> returns the default: code
  \<^verbatim>\<open>en\<close>, confidence 0, supported, rawCode \<^verbatim>\<open>und\<close>. \<^verbatim>\<open>detectLanguage("hi", 10)\<close> is an
  instance. An empty text and a text shorter than \<open>minLength\<close> are stopped by the first
  guard, whatever the classifier. A text of white space only passes that guard when
  \<open>minLength\<close> is 0 or negative; the classifier is then consulted, and the second guard
  returns the default because \<^verbatim>\<open>franc\<close> answers \<^verbatim>\<open>und\<close> (or nothing) on such a text.
  This property of the library is the first hypothesis.
\<close>

theorem detectLanguage_short:
  assumes "list_all isWhiteSpace text \<longrightarrow>
             francAll text = [] \<or> (\<exists>s rest. francAll text = (''und'', s) # rest)"
    and "text = [] \<or> list_all isWhiteSpace text \<or> real (length (trim text)) < minLength"
  shows "detectLanguage francAll text minLength =
     \<lparr> code = ''en'', confidence = 0, isSupported = True, rawCode = ''und'' \<rparr>"
proof (cases "text = [] \<or> real (length (trim text)) < minLength")
  case True
  then show ?thesis
    by (auto simp: detectLanguage_def)
next
  case False
  then have "list_all isWhiteSpace text"
    using assms(2) by blast
  then have "francAll text = [] \<or> (\<exists>s rest. francAll text = (''und'', s) # rest)"
    using assms(1) by blast
  then show ?thesis
    using False by (auto simp: detectLanguage_def)
qed

theorem detectLanguage_short_witness:
  "detectLanguage blankFranc ''hi'' 10 =
     \<lparr> code = ''en'', confidence = 0, isSupported = True, rawCode = ''und'' \<rparr> \<and>
   detectLanguage blankFranc ''   '' 0 =
     \<lparr> code = ''en'', confidence = 0, isSupported = True, rawCode = ''und'' \<rparr> \<and>
   detectLanguage blankFranc [] 0 =
     \<lparr> code = ''en'', confidence = 0, isSupported = True, rawCode = ''und'' \<rparr>"
proof -
  have contract: "list_all isWhiteSpace t \<longrightarrow>
      blankFranc t = [] \<or> (\<exists>s rest. blankFranc t = (''und'', s) # rest)" for t
    by (simp add: blankFranc_def)
  have short: "''hi'' = [] \<or> list_all isWhiteSpace ''hi'' \<or>
      real (length (trim ''hi'')) < 10"
    by (simp add: trim_def isWhiteSpace_def)
  have blank: "''   '' = [] \<or> list_all isWhiteSpace ''   '' \<or>
      real (length (trim ''   '')) < 0"
    by (simp add: isWhiteSpace_def)
  have empty: "([]::string) = [] \<or> list_all isWhiteSpace [] \<or>
      real (length (trim [])) < 0"
    by simp
  show ?thesis
    using detectLanguage_short [of "''hi''" blankFranc 10, OF contract short]
      detectLanguage_short [of "''   ''" blankFranc 0, OF contract blank]
      detectLanguage_short [of "[]" blankFranc 0, OF contract empty]
    by simp
qed

section \<open>Language detection: an undetermined top candidate\<close>

text \<open>
  C10. \<^verbatim>\<open>detectLanguages\<close> has no branch for an \<^verbatim>\<open>und\<close> top candidate. For a text of at
  least 10 code units after trimming on which the classifier's first entry is
  \<^verbatim>\<open>und\<close>, and a limit of at least 1 (the default is 5), the first entry of the result
  has rawCode \<^verbatim>\<open>und\<close>, is not supported, and has code \<^verbatim>\<open>en\<close>: the table has no entry
  for \<^verbatim>\<open>und\<close>, so the code is cut to \<^verbatim>\<open>un\<close>, which is not a supported language. Its
  confidence is the entry's share of the window, which need not be 0.
  \<^verbatim>\<open>detectLanguage\<close> on the same text returns the default, supported and with
  confidence 0, for every \<open>minLength\<close>.
\<close>

theorem detectLanguages_keeps_und:
  assumes "text \<noteq> []" and "10 \<le> length (trim text)"
    and "francAll text = (''und'', undScore) # rest" and "1 \<le> limit"
  shows "(let total = sum_list (map snd (take (nat limit) (francAll text))) in
          detectLanguages francAll text limit \<noteq> [] \<and>
          hd (detectLanguages francAll text limit) =
            \<lparr> code = ''en'', confidence = (if 0 < total then undScore / total else 0),
              isSupported = False, rawCode = ''und'' \<rparr>) \<and>
         iso639_1 ''und'' = Val (take 2 ''und'') \<and>
         detectLanguage francAll text minLength =
           \<lparr> code = ''en'', confidence = 0, isSupported = True, rawCode = ''und'' \<rparr>"
proof -
  obtain n where n: "nat limit = Suc n"
    using assms(4) by (cases "nat limit") auto
  have "detectLanguage francAll text minLength =
      \<lparr> code = ''en'', confidence = 0, isSupported = True, rawCode = ''und'' \<rparr>"
    using assms(3) by (simp add: detectLanguage_def)
  moreover have "0 \<le> limit"
    using assms(4) by simp
  ultimately show ?thesis
    using assms(1-3) n iso639_1_und
    by (simp add: detectLanguages_def Let_def slice0_nonneg sumScores_sum_list
        finalCode_def isSupportedLanguage_def SUPPORTED_LANGUAGES_def)
qed

theorem detectLanguages_keeps_und_witness:
  "hd (detectLanguages (\<lambda>t. [(''und'', 1)]) exampleText 5) =
     \<lparr> code = ''en'', confidence = 1, isSupported = False, rawCode = ''und'' \<rparr> \<and>
   detectLanguages (\<lambda>t. [(''und'', 1)]) exampleText 5 \<noteq> [] \<and>
   detectLanguage (\<lambda>t. [(''und'', 1)]) exampleText 10 =
     \<lparr> code = ''en'', confidence = 0, isSupported = True, rawCode = ''und'' \<rparr>"
  using detectLanguages_keeps_und
      [of exampleText "\<lambda>t. [(''und'', 1)]" 1 "[]" 5 10]
    exampleText_nonempty exampleText_long
  by (simp add: Let_def)

end
